theory Spec2Isabelle
  imports Main "HOL-Library.Sublist"
begin

section \<open>Text: the string operations the handlers use\<close>


definition lower_char :: "char \<Rightarrow> char" where
  \<comment> \<open>\<open>str.lower\<close> on one code point below 256: A-Z and the Latin-1 capitals\<close>
  "lower_char c = (let n = (of_char c :: nat) in
     if (65 \<le> n \<and> n \<le> 90) \<or> (192 \<le> n \<and> n \<le> 222 \<and> n \<noteq> 215)
     then char_of (n + 32) else c)"

definition lower :: "string \<Rightarrow> string" where
  "lower s = map lower_char s"


fun str_contains :: "string \<Rightarrow> string \<Rightarrow> bool" where
  \<comment> \<open>\<open>k in s\<close> for strings: \<open>k\<close> occurs in \<open>s\<close> as a contiguous run\<close>
  "str_contains k [] = (k = [])"
| "str_contains k (c # cs) = (prefix k (c # cs) \<or> str_contains k cs)"


section \<open>Errors and the document store\<close>

datatype error =
    ValidationError   \<comment> \<open>the request body does not fit the handler's model\<close>
  | InvalidId         \<comment> \<open>\<open>ObjectId(s)\<close> on a string that is no object id\<close>
  | NotImplementedError \<comment> \<open>the truth value of a store handle is asked for\<close>
  | TypeError         \<comment> \<open>\<open>None\<close> is subscripted\<close>
  | StoreUnavailable  \<comment> \<open>a write helper called without a store\<close>
  | PyMongoError      \<comment> \<open>a store operation raised\<close>
  | DuplicateKeyError \<comment> \<open>an insert whose \<open>_id\<close> the collection already holds\<close>
  | WriteError        \<comment> \<open>\<open>$push\<close> on a field that is not an array\<close>

datatype val =
    VNull
  | VStr string
  | VList "val list"
  | VDict "(string \<times> val) list"

type_synonym document = "(string \<times> val) list"

fun dict_set :: "'k \<Rightarrow> 'v \<Rightarrow> ('k \<times> 'v) list \<Rightarrow> ('k \<times> 'v) list" where
  \<comment> \<open>\<open>d[k] = v\<close>: an existing key keeps its place, a new key goes last\<close>
  "dict_set k v [] = [(k, v)]"
| "dict_set k v (p # ps) = (if fst p = k then (k, v) # ps else p # dict_set k v ps)"

definition hexchar :: "nat \<Rightarrow> char" where
  "hexchar n = ''0123456789abcdef'' ! (n mod 16)"

definition is_hex :: "char \<Rightarrow> bool" where
  "is_hex c = (c \<in> set ''0123456789abcdefABCDEF'')"

type_synonym oid = string

definition hex_space :: "char \<Rightarrow> bool" where
  \<comment> \<open>the ASCII whitespace that \<open>bytes.fromhex\<close> skips: tab, line feed, vertical tab,
      form feed, carriage return and space\<close>
  "hex_space c = (let n = (of_char c :: nat) in (9 \<le> n \<and> n \<le> 13) \<or> n = 32)"

fun fromhex :: "string \<Rightarrow> string option" where
  \<comment> \<open>\<open>bytes.fromhex\<close>: the bytes a hex text spells, held as their lower-case hex
      digits; \<open>None\<close> is its ValueError. Whitespace is skipped before a byte, and the
      two digits of a byte stand together.\<close>
  "fromhex [] = Some []"
| "fromhex [c] = (if hex_space c then Some [] else None)"
| "fromhex (c # d # cs) =
     (if hex_space c then fromhex (d # cs)
      else if is_hex c \<and> is_hex d
      then (case fromhex cs of None \<Rightarrow> None | Some r \<Rightarrow> Some (lower_char c # lower_char d # r))
      else None)"

definition ObjectId :: "string \<Rightarrow> oid option" where
  \<comment> \<open>\<open>bson.ObjectId(s)\<close> for a string: any string of 24 characters that
      \<open>bytes.fromhex\<close> accepts is taken, and any other raises InvalidId (\<open>None\<close>).
      An object id is held as the lower-case hex digits of its bytes, which is what
      \<open>str\<close> of it prints.\<close>
  "ObjectId s = (if length s = 24 then fromhex s else None)"

fun hex_digits :: "nat \<Rightarrow> nat \<Rightarrow> string" where
  "hex_digits 0 n = []"
| "hex_digits (Suc k) n = hex_digits k (n div 16) @ [hexchar n]"

definition new_oid :: "nat \<Rightarrow> oid" where
  \<comment> \<open>the id the store generates from its counter\<close>
  "new_oid n = hex_digits 24 n"

record store =
  collections :: "(string \<times> (oid \<times> document) list) list"
  next_oid :: nat
  faults :: "bool list"

type_synonym db = "store option"

text \<open>
  The store is the part of the world the handlers share: the collections (a document is
  held as its \<open>_id\<close> and its other fields), the counter the next generated id comes
  from, and a schedule of faults: each operation on the store takes the head of
  \<open>faults\<close>, and raises when it is \<open>True\<close>. An empty schedule is a store that
  answers every call. \<open>db\<close> is \<open>None\<close> when the process has no store, and a
  pymongo \<open>Database\<close> otherwise. The source tests it in two ways: \<open>db is None\<close>
  compares, and \<open>if db\<close> and \<open>if not db\<close> ask for its truth value, which a
  \<open>Database\<close> refuses to give: it raises NotImplementedError.
\<close>

definition truth :: "db \<Rightarrow> error + bool" where
  \<comment> \<open>\<open>bool(db)\<close>\<close>
  "truth d = (case d of None \<Rightarrow> Inr False | Some s \<Rightarrow> Inl NotImplementedError)"

definition attempt :: "store \<Rightarrow> bool \<times> store" where
  "attempt s = (case faults s of [] \<Rightarrow> (False, s) | f # fs \<Rightarrow> (f, s\<lparr>faults := fs\<rparr>))"

definition get_coll :: "store \<Rightarrow> string \<Rightarrow> (oid \<times> document) list" where
  "get_coll s cname = (case map_of (collections s) cname of None \<Rightarrow> [] | Some ds \<Rightarrow> ds)"



definition insert_one :: "store \<Rightarrow> string \<Rightarrow> document \<Rightarrow> (error + oid) \<times> store" where
  \<comment> \<open>for a document that carries no \<open>_id\<close> of its own, as every document of this
      program: the id is generated, and the collection is created when it is not there\<close>
  "insert_one s cname doc =
     (case attempt s of
        (True, s') \<Rightarrow> (Inl PyMongoError, s')
      | (False, s') \<Rightarrow>
          (let i = new_oid (next_oid s');
               s'' = s'\<lparr>next_oid := next_oid s' + 1\<rparr>
           in if i \<in> set (map fst (get_coll s' cname)) then (Inl DuplicateKeyError, s'')
              else (Inr i, s''\<lparr>collections :=
                      dict_set cname (get_coll s' cname @ [(i, doc)]) (collections s')\<rparr>)))"

definition find_one :: "store \<Rightarrow> string \<Rightarrow> oid \<Rightarrow> (error + (oid \<times> document) option) \<times> store" where
  \<comment> \<open>\<open>find_one({"_id": i})\<close>\<close>
  "find_one s cname i =
     (case attempt s of
        (True, s') \<Rightarrow> (Inl PyMongoError, s')
      | (False, s') \<Rightarrow> (Inr (find (\<lambda>d. fst d = i) (get_coll s' cname)), s'))"

definition find_limit :: "store \<Rightarrow> string \<Rightarrow> nat \<Rightarrow> (error + (oid \<times> document) list) \<times> store" where
  \<comment> \<open>\<open>list(find().limit(n))\<close>\<close>
  "find_limit s cname n =
     (case attempt s of
        (True, s') \<Rightarrow> (Inl PyMongoError, s')
      | (False, s') \<Rightarrow> (Inr (take n (get_coll s' cname)), s'))"




definition create_document :: "db \<Rightarrow> string \<Rightarrow> document \<Rightarrow> (error + string) \<times> db" where
  \<comment> \<open>Modelled from the spec: \<open>create_document\<close> of the module \<open>database\<close>, which is
      not among the sources. The spec has it insert the document and return the new,
      store-generated id as a string, and has a write without a store fail.\<close>
  "create_document d collection_name data =
     (case d of
        None \<Rightarrow> (Inl StoreUnavailable, None)
      | Some s \<Rightarrow>
          (case insert_one s collection_name data of
             (Inl e, s') \<Rightarrow> (Inl e, Some s')
           | (Inr i, s') \<Rightarrow> (Inr i, Some s')))"

definition expose_id :: "oid \<times> document \<Rightarrow> document" where
  \<comment> \<open>\<open>it["id"] = str(it.pop("_id"))\<close>\<close>
  "expose_id it = dict_set ''id'' (VStr (fst it)) (snd it)"

section \<open>Request models\<close>

text \<open>
  A request body is a JSON object, here a \<open>document\<close>. A handler's model reads its
  fields out of the body: a field declared \<open>str\<close> has to be there as a string, a
  field declared \<open>Optional[str] = None\<close> may be absent or null, and a field with a
  default takes it when absent. Anything else is a ValidationError, raised before the
  handler runs.
\<close>

definition required_str :: "document \<Rightarrow> string \<Rightarrow> error + string" where
  "required_str body k =
     (case map_of body k of Some (VStr s) \<Rightarrow> Inr s | _ \<Rightarrow> Inl ValidationError)"

definition optional_str :: "document \<Rightarrow> string \<Rightarrow> error + string option" where
  "optional_str body k =
     (case map_of body k of
        None \<Rightarrow> Inr None
      | Some VNull \<Rightarrow> Inr None
      | Some (VStr s) \<Rightarrow> Inr (Some s)
      | Some _ \<Rightarrow> Inl ValidationError)"

fun str_items :: "val list \<Rightarrow> error + string list" where
  "str_items [] = Inr []"
| "str_items (VStr s # vs) = (case str_items vs of Inl e \<Rightarrow> Inl e | Inr ss \<Rightarrow> Inr (s # ss))"
| "str_items (_ # vs) = Inl ValidationError"

definition str_list_default :: "document \<Rightarrow> string \<Rightarrow> error + string list" where
  \<comment> \<open>\<open>List[str] = []\<close>\<close>
  "str_list_default body k =
     (case map_of body k of
        None \<Rightarrow> Inr []
      | Some (VList vs) \<Rightarrow> str_items vs
      | Some _ \<Rightarrow> Inl ValidationError)"

definition opt_val :: "string option \<Rightarrow> val" where
  "opt_val x = (case x of None \<Rightarrow> VNull | Some s \<Rightarrow> VStr s)"

record RoleCreate =
  title :: string
  department :: "string option"
  location :: "string option"
  level :: "string option"
  description :: string
  requirements :: "string list"

definition RoleCreate_validate :: "document \<Rightarrow> error + RoleCreate" where
  "RoleCreate_validate body =
     (case required_str body ''title'' of Inl e \<Rightarrow> Inl e | Inr t \<Rightarrow>
     (case optional_str body ''department'' of Inl e \<Rightarrow> Inl e | Inr dp \<Rightarrow>
     (case optional_str body ''location'' of Inl e \<Rightarrow> Inl e | Inr lo \<Rightarrow>
     (case optional_str body ''level'' of Inl e \<Rightarrow> Inl e | Inr lv \<Rightarrow>
     (case required_str body ''description'' of Inl e \<Rightarrow> Inl e | Inr ds \<Rightarrow>
     (case str_list_default body ''requirements'' of Inl e \<Rightarrow> Inl e | Inr rq \<Rightarrow>
        Inr \<lparr>title = t, department = dp, location = lo, level = lv,
             description = ds, requirements = rq\<rparr>))))))"

definition RoleCreate_dump :: "RoleCreate \<Rightarrow> document" where
  \<comment> \<open>\<open>role.model_dump()\<close>\<close>
  "RoleCreate_dump r =
     [(''title'', VStr (title r)),
      (''department'', opt_val (department r)),
      (''location'', opt_val (location r)),
      (''level'', opt_val (level r)),
      (''description'', VStr (description r)),
      (''requirements'', VList (map VStr (requirements r)))]"

record ApplicantCreate =
  name :: string
  email :: string
  role_id :: "string option"
  resume_text :: "string option"

definition ApplicantCreate_validate :: "document \<Rightarrow> error + ApplicantCreate" where
  \<comment> \<open>\<open>email\<close> is declared \<open>str\<close>: any string passes\<close>
  "ApplicantCreate_validate body =
     (case required_str body ''name'' of Inl e \<Rightarrow> Inl e | Inr n \<Rightarrow>
     (case required_str body ''email'' of Inl e \<Rightarrow> Inl e | Inr em \<Rightarrow>
     (case optional_str body ''role_id'' of Inl e \<Rightarrow> Inl e | Inr ri \<Rightarrow>
     (case optional_str body ''resume_text'' of Inl e \<Rightarrow> Inl e | Inr rt \<Rightarrow>
        Inr \<lparr>name = n, email = em, role_id = ri, resume_text = rt\<rparr>))))"

definition ApplicantCreate_dump :: "ApplicantCreate \<Rightarrow> document" where
  \<comment> \<open>\<open>applicant.model_dump()\<close>\<close>
  "ApplicantCreate_dump a =
     [(''name'', VStr (name a)),
      (''email'', VStr (email a)),
      (''role_id'', opt_val (role_id a)),
      (''resume_text'', opt_val (resume_text a))]"

record ChatTurn =
  interview_id :: string
  message :: string

section \<open>Startup seeding\<close>





section \<open>Roles\<close>

definition get_role :: "db \<Rightarrow> string \<Rightarrow> (error + document option) \<times> db" where
  \<comment> \<open>the value is the \<open>role\<close> field of the response, \<open>None\<close> for null\<close>
  "get_role d rid =
     (case d of
        None \<Rightarrow> (Inr None, None)
      | Some s \<Rightarrow>
          (case ObjectId rid of
             None \<Rightarrow> (Inl InvalidId, Some s)
           | Some i \<Rightarrow>
               (case find_one s ''role'' i of
                  (Inl e, s') \<Rightarrow> (Inl e, Some s')
                | (Inr None, s') \<Rightarrow> (Inr None, Some s')
                | (Inr (Some item), s') \<Rightarrow> (Inr (Some (expose_id item)), Some s'))))"

definition create_role :: "db \<Rightarrow> RoleCreate \<Rightarrow> (error + string) \<times> db" where
  \<comment> \<open>the value is the \<open>id\<close> field of the response\<close>
  "create_role d role =
     (case create_document d ''role'' (RoleCreate_dump role) of
        (Inl e, d') \<Rightarrow> (Inl e, d')
      | (Inr rid, d') \<Rightarrow> (Inr rid, d'))"

definition post_roles :: "db \<Rightarrow> document \<Rightarrow> (error + string) \<times> db" where
  \<comment> \<open>POST /api/roles: the body is validated, then the handler runs\<close>
  "post_roles d body =
     (case RoleCreate_validate body of Inl e \<Rightarrow> (Inl e, d) | Inr role \<Rightarrow> create_role d role)"

section \<open>Application intake\<close>

record apply_response =
  applicant_id :: string
  suggested_roles :: "string list"

definition apply_handler :: "db \<Rightarrow> ApplicantCreate \<Rightarrow> (error + apply_response) \<times> db" where
  \<comment> \<open>the source's \<open>apply\<close>\<close>
  "apply_handler d applicant =
     (case create_document d ''applicant'' (ApplicantCreate_dump applicant) of
        (Inl e, d') \<Rightarrow> (Inl e, d')
      | (Inr aid, d') \<Rightarrow>
          (Inr \<lparr>applicant_id = aid,
                suggested_roles = [''Frontend Engineer'', ''Backend Engineer'']\<rparr>, d'))"

definition post_apply :: "db \<Rightarrow> document \<Rightarrow> (error + apply_response) \<times> db" where
  \<comment> \<open>POST /api/apply: the body is validated, then the handler runs\<close>
  "post_apply d body =
     (case ApplicantCreate_validate body of
        Inl e \<Rightarrow> (Inl e, d)
      | Inr applicant \<Rightarrow> apply_handler d applicant)"

section \<open>The coding judge\<close>

record CodingRunRequest =
  interview_id :: string
  language :: string
  code :: string
  input :: "string option"

definition generic_output :: string where
  "generic_output = ''Running tests...'' @ [CHR 0x0A] @ ''Test 1: PASSED'' @ [CHR 0x0A]
     @ ''Test 2: PASSED'' @ [CHR 0x0A] @ ''All good!''"

definition run_code :: "db \<Rightarrow> CodingRunRequest \<Rightarrow> (error + string) \<times> db" where
  "run_code d req =
     (let output = generic_output;
          output = (if str_contains ''reverse'' (lower (code req)) then ''All tests passed.''
                    else if str_contains ''error'' (lower (code req))
                    then ''Compilation error: Unexpected token''
                    else output)
      in (Inr output, d))"

section \<open>Interview chat\<close>







section \<open>Admin views\<close>

definition admin_applicants :: "db \<Rightarrow> (error + document list) \<times> db" where
  \<comment> \<open>the value is the \<open>applicants\<close> field of the response\<close>
  "admin_applicants d =
     (case truth d of
        Inl e \<Rightarrow> (Inl e, d)
      | Inr False \<Rightarrow> (Inr [], d)
      | Inr True \<Rightarrow>
          (case d of
             None \<Rightarrow> (Inl TypeError, None)
           | Some s \<Rightarrow>
               (case find_limit s ''applicant'' 50 of
                  (Inl e, s') \<Rightarrow> (Inl e, Some s')
                | (Inr apps, s') \<Rightarrow> (Inr (map expose_id apps), Some s'))))"

section \<open>Runs and observations\<close>


definition applicant_count :: "db \<Rightarrow> nat" where
  "applicant_count d = (case d of None \<Rightarrow> 0 | Some s \<Rightarrow> length (get_coll s ''applicant''))"

fun apply_each :: "db \<Rightarrow> ApplicantCreate list \<Rightarrow> (error + unit) \<times> db" where
  "apply_each d [] = (Inr (), d)"
| "apply_each d (a # as) =
     (case apply_handler d a of
        (Inl e, d') \<Rightarrow> (Inl e, d')
      | (Inr _, d') \<Rightarrow> apply_each d' as)"

definition ids_generated :: "store \<Rightarrow> string \<Rightarrow> bool" where
  "ids_generated s cname = (\<forall>i \<in> set (map fst (get_coll s cname)). \<exists>k < next_oid s. i = new_oid k)"

section \<open>The input of a request, field by field\<close>

text \<open>
  What a request body gives for a field: the value it carries, or the field's default
  when the body leaves the field out. This is the reading of "the input" that the
  round trip of a Role is stated against.
\<close>

definition input_field :: "document \<Rightarrow> string \<Rightarrow> val \<Rightarrow> val" where
  "input_field body k dflt = (case map_of body k of None \<Rightarrow> dflt | Some v \<Rightarrow> v)"

section \<open>Example stores\<close>

definition store_created_role :: store where
  "store_created_role =
     \<lparr>collections =
        [(''role'', [(''000000000000000000000000'',
                     [(''title'', VStr ''Chef''), (''department'', VNull),
                      (''location'', VNull), (''level'', VNull),
                      (''description'', VStr ''Cooks''), (''requirements'', VList [])])])],
      next_oid = 1, faults = []\<rparr>"

definition store_one_role :: store where
  "store_one_role =
     \<lparr>collections =
        [(''role'', [(''000000000000000000000000'',
                     [(''title'', VStr ''Chef''), (''description'', VStr ''Cooks'')])])],
      next_oid = 1, faults = []\<rparr>"

section \<open>Facts about text\<close>

lemma str_contains_sublist: "str_contains k s = sublist k s"
  by (induction s) (simp_all add: sublist_Cons_right)

lemma str_contains_iff: "str_contains k s \<longleftrightarrow> (\<exists>p q. s = p @ k @ q)"
  by (simp add: str_contains_sublist sublist_def)
















section \<open>Facts about the store\<close>

lemma attempt_ok: "faults s = [] \<Longrightarrow> attempt s = (False, s)"
  by (simp add: attempt_def)

lemma attempt_fault: "faults s = f # fs \<Longrightarrow> attempt s = (f, s\<lparr>faults := fs\<rparr>)"
  by (simp add: attempt_def)

lemma map_of_dict_set: "map_of (dict_set k v al) k' = (if k' = k then Some v else map_of al k')"
  by (induction al) auto

lemma find_absent: "i \<notin> set (map fst ds) \<Longrightarrow> find (\<lambda>d. fst d = i) ds = None"
  by (induction ds) auto

lemma find_one_ok:
  "faults s = [] \<Longrightarrow> find_one s cname i = (Inr (find (\<lambda>d. fst d = i) (get_coll s cname)), s)"
  by (simp add: find_one_def attempt_ok)

lemma insert_one_ok:
  assumes "faults s = []" "new_oid (next_oid s) \<notin> set (map fst (get_coll s cname))"
  shows "insert_one s cname doc =
           (Inr (new_oid (next_oid s)),
            s\<lparr>next_oid := next_oid s + 1,
              collections := dict_set cname (get_coll s cname @ [(new_oid (next_oid s), doc)])
                               (collections s)\<rparr>)"
  using assms by (simp add: insert_one_def attempt_ok Let_def)

lemma create_document_ok:
  assumes "faults s = []" "new_oid (next_oid s) \<notin> set (map fst (get_coll s cname))"
  shows "create_document (Some s) cname doc =
           (Inr (new_oid (next_oid s)),
            Some (s\<lparr>next_oid := next_oid s + 1,
              collections := dict_set cname (get_coll s cname @ [(new_oid (next_oid s), doc)])
                               (collections s)\<rparr>))"
  by (simp add: create_document_def insert_one_ok [OF assms])

lemma new_oid_0: "new_oid 0 = ''000000000000000000000000''"
  by code_simp

lemma create_document_first:
  "create_document (Some \<lparr>collections = [], next_oid = 0, faults = []\<rparr>) cname doc =
     (Inr ''000000000000000000000000'',
      Some \<lparr>collections = [(cname, [(''000000000000000000000000'', doc)])],
            next_oid = 1, faults = []\<rparr>)"
proof -
  let ?s = "\<lparr>collections = [], next_oid = 0, faults = []\<rparr>"
  have f: "faults ?s = []" by simp
  have n: "new_oid (next_oid ?s) \<notin> set (map fst (get_coll ?s cname))"
    by (simp add: get_coll_def)
  show ?thesis
    by (simp add: create_document_ok [OF f n] get_coll_def new_oid_0)
qed

lemma hexchar_nth: "hexchar n = ''0123456789abcdef'' ! (n mod 16) \<and> n mod 16 < length ''0123456789abcdef''"
  by (simp add: hexchar_def)

lemma is_hex_hexchar: "is_hex (hexchar n)"
proof -
  have "list_all is_hex ''0123456789abcdef''" by code_simp
  then show ?thesis using hexchar_nth [of n] by (simp only: list_all_length)
qed

lemma lower_char_hexchar: "lower_char (hexchar n) = hexchar n"
proof -
  have "list_all (\<lambda>c. lower_char c = c) ''0123456789abcdef''" by code_simp
  then show ?thesis using hexchar_nth [of n] by (simp only: list_all_length)
qed

lemma length_hex_digits: "length (hex_digits k n) = k"
  by (induction k arbitrary: n) simp_all

lemma is_hex_hex_digits: "list_all is_hex (hex_digits k n)"
  by (induction k arbitrary: n) (simp_all add: is_hex_hexchar)

lemma lower_hex_digits: "lower (hex_digits k n) = hex_digits k n"
  by (induction k arbitrary: n) (simp_all add: lower_def lower_char_hexchar)

lemma is_hex_not_space: "is_hex c \<Longrightarrow> \<not> hex_space c"
proof -
  have "list_all (\<lambda>c. \<not> hex_space c) ''0123456789abcdefABCDEF''" by code_simp
  then show "is_hex c \<Longrightarrow> \<not> hex_space c" by (simp only: list_all_iff is_hex_def) blast
qed

lemma fromhex_hex:
  "list_all is_hex s \<Longrightarrow> even (length s) \<Longrightarrow> fromhex s = Some (lower s)"
proof (induction s rule: fromhex.induct)
  case 1
  show ?case by (simp add: lower_def)
next
  case (2 c)
  then show ?case by simp
next
  case (3 c d cs)
  then have h: "is_hex c" "is_hex d" "list_all is_hex cs" "even (length cs)" by simp_all
  have "fromhex cs = Some (lower cs)" using 3 h by (simp add: is_hex_not_space)
  then show ?case using h by (simp add: is_hex_not_space lower_def)
qed

lemma ObjectId_new_oid: "ObjectId (new_oid n) = Some (new_oid n)"
proof -
  have "fromhex (hex_digits 24 n) = Some (lower (hex_digits 24 n))"
    by (rule fromhex_hex) (simp_all add: is_hex_hex_digits length_hex_digits)
  then show ?thesis
    by (simp add: ObjectId_def new_oid_def length_hex_digits lower_hex_digits)
qed

lemma new_oid_nonempty: "new_oid n \<noteq> []"
  using length_hex_digits [of 24 n] by (auto simp: new_oid_def)

lemma get_coll_dict_set:
  "get_coll (s\<lparr>collections := dict_set c v (collections s)\<rparr>) c' = (if c' = c then v else get_coll s c')"
  by (simp add: get_coll_def map_of_dict_set)

lemma find_appended:
  "i \<notin> set (map fst ds) \<Longrightarrow> find (\<lambda>d. fst d = i) (ds @ [(i, x)]) = Some (i, x)"
  by (induction ds) auto

lemma insert_one_Inr:
  assumes "insert_one s cname doc = (Inr i, s')"
  shows "i \<notin> set (map fst (get_coll s cname)) \<and> i = new_oid (next_oid s)
         \<and> get_coll s' cname = get_coll s cname @ [(i, doc)]
         \<and> (faults s = [] \<longrightarrow> faults s' = [])"
proof (cases "faults s")
  case Nil
  then have a: "attempt s = (False, s)" by (rule attempt_ok)
  show ?thesis
    using assms Nil unfolding insert_one_def a Let_def
    by (auto simp: get_coll_def map_of_dict_set split: if_splits)
next
  case (Cons f fs)
  then have a: "attempt s = (f, s\<lparr>faults := fs\<rparr>)" by (rule attempt_fault)
  have g: "get_coll (s\<lparr>faults := fs\<rparr>) cname = get_coll s cname" by (simp add: get_coll_def)
  show ?thesis
    using assms Cons unfolding insert_one_def a Let_def
    by (cases f) (auto simp: get_coll_def map_of_dict_set split: if_splits)
qed

lemma create_document_Inr:
  assumes "create_document d cname doc = (Inr i, d')"
  shows "\<exists>s s'. d = Some s \<and> d' = Some s' \<and> i \<notin> set (map fst (get_coll s cname))
           \<and> i = new_oid (next_oid s)
           \<and> get_coll s' cname = get_coll s cname @ [(i, doc)]
           \<and> (faults s = [] \<longrightarrow> faults s' = [])"
proof (cases d)
  case None
  then show ?thesis using assms by (simp add: create_document_def)
next
  case (Some s)
  obtain r s' where io: "insert_one s cname doc = (r, s')" by (cases "insert_one s cname doc")
  with assms Some have "r = Inr i" "d' = Some s'"
    by (auto simp: create_document_def split: sum.splits)
  with io have "insert_one s cname doc = (Inr i, s')" by simp
  from insert_one_Inr [OF this] Some \<open>d' = Some s'\<close> show ?thesis by blast
qed

lemma expose_id_dump:
  "expose_id (i, RoleCreate_dump role) = RoleCreate_dump role @ [(''id'', VStr i)]"
  by (simp add: expose_id_def RoleCreate_dump_def)

lemma create_role_then_get:
  assumes "create_role d role = (Inr rid, Some s')" "faults s' = []"
  shows "get_role (Some s') rid = (Inr (Some (RoleCreate_dump role @ [(''id'', VStr rid)])), Some s')
         \<and> rid \<noteq> []"
proof -
  have "create_document d ''role'' (RoleCreate_dump role) = (Inr rid, Some s')"
    using assms(1) by (auto simp: create_role_def split: prod.splits sum.splits)
  from create_document_Inr [OF this] obtain s where
    fresh: "rid \<notin> set (map fst (get_coll s ''role''))" and
    rid: "rid = new_oid (next_oid s)" and
    coll: "get_coll s' ''role'' = get_coll s ''role'' @ [(rid, RoleCreate_dump role)]"
    by auto
  have o: "ObjectId rid = Some rid" unfolding rid by (rule ObjectId_new_oid)
  have f: "find (\<lambda>d. fst d = rid) (get_coll s' ''role'') = Some (rid, RoleCreate_dump role)"
    unfolding coll using fresh by (rule find_appended)
  have ne: "rid \<noteq> []" unfolding rid by (rule new_oid_nonempty)
  show ?thesis
    by (simp add: get_role_def o find_one_ok [OF assms(2)] f expose_id_dump ne)
qed


lemma required_str_Inr: "required_str body k = Inr t \<Longrightarrow> map_of body k = Some (VStr t)"
  by (auto simp: required_str_def split: option.splits val.splits)

lemma optional_str_Inr: "optional_str body k = Inr x \<Longrightarrow> opt_val x = input_field body k VNull"
  by (auto simp: optional_str_def opt_val_def input_field_def split: option.splits val.splits)

lemma str_items_Inr: "str_items vs = Inr ss \<Longrightarrow> map VStr ss = vs"
  by (induction vs arbitrary: ss rule: str_items.induct) (auto split: sum.splits)

lemma str_list_default_Inr:
  "str_list_default body k = Inr rq \<Longrightarrow> VList (map VStr rq) = input_field body k (VList [])"
  by (auto simp: str_list_default_def input_field_def str_items_Inr split: option.splits val.splits)

lemma RoleCreate_validate_dump:
  assumes "RoleCreate_validate body = Inr role"
  shows "RoleCreate_dump role =
           [(''title'', input_field body ''title'' VNull),
            (''department'', input_field body ''department'' VNull),
            (''location'', input_field body ''location'' VNull),
            (''level'', input_field body ''level'' VNull),
            (''description'', input_field body ''description'' VNull),
            (''requirements'', input_field body ''requirements'' (VList []))]"
proof -
  from assms obtain t dp lo lv ds rq where
    t: "required_str body ''title'' = Inr t" and
    dp: "optional_str body ''department'' = Inr dp" and
    lo: "optional_str body ''location'' = Inr lo" and
    lv: "optional_str body ''level'' = Inr lv" and
    ds: "required_str body ''description'' = Inr ds" and
    rq: "str_list_default body ''requirements'' = Inr rq" and
    role: "role = \<lparr>title = t, department = dp, location = lo, level = lv,
                    description = ds, requirements = rq\<rparr>"
    unfolding RoleCreate_validate_def by (auto split: sum.splits)
  have "input_field body ''title'' VNull = VStr t"
    using required_str_Inr [OF t] by (simp add: input_field_def)
  moreover have "input_field body ''description'' VNull = VStr ds"
    using required_str_Inr [OF ds] by (simp add: input_field_def)
  ultimately show ?thesis
    using optional_str_Inr [OF dp] optional_str_Inr [OF lo] optional_str_Inr [OF lv]
      str_list_default_Inr [OF rq]
    by (simp add: RoleCreate_dump_def role)
qed

lemma RoleCreate_validate_minimal:
  assumes "map_of body ''title'' = Some (VStr t)" "map_of body ''description'' = Some (VStr ds)"
    "map_of body ''department'' = None" "map_of body ''location'' = None"
    "map_of body ''level'' = None" "map_of body ''requirements'' = None"
  shows "RoleCreate_validate body =
           Inr \<lparr>title = t, department = None, location = None, level = None,
                description = ds, requirements = []\<rparr>"
  using assms
  by (simp add: RoleCreate_validate_def required_str_def optional_str_def str_list_default_def)

lemma hexchar_inj: "hexchar a = hexchar b \<Longrightarrow> a mod 16 = b mod 16"
proof -
  have d: "distinct ''0123456789abcdef''" by simp
  assume "hexchar a = hexchar b"
  then show ?thesis
    using nth_eq_iff_index_eq [OF d, of "a mod 16" "b mod 16"] by (simp add: hexchar_def)
qed

lemma hex_digits_inj: "hex_digits k a = hex_digits k b \<Longrightarrow> a mod 16 ^ k = b mod 16 ^ k"
proof (induction k arbitrary: a b)
  case 0
  then show ?case by simp
next
  case (Suc k)
  then have h: "hex_digits k (a div 16) = hex_digits k (b div 16)" and c: "hexchar a = hexchar b"
    by simp_all
  have 1: "(a div 16) mod 16 ^ k = (b div 16) mod 16 ^ k" by (rule Suc.IH [OF h])
  have 2: "a mod 16 = b mod 16" by (rule hexchar_inj [OF c])
  have "a mod (16 * 16 ^ k) = 16 * ((a div 16) mod 16 ^ k) + a mod 16"
    by (rule mod_mult2_eq)
  moreover have "b mod (16 * 16 ^ k) = 16 * ((b div 16) mod 16 ^ k) + b mod 16"
    by (rule mod_mult2_eq)
  ultimately show ?case using 1 2 by simp
qed

lemma new_oid_inj: "a < 16 ^ 24 \<Longrightarrow> b < 16 ^ 24 \<Longrightarrow> new_oid a = new_oid b \<Longrightarrow> a = b"
  using hex_digits_inj [of 24 a b] by (simp add: new_oid_def)



lemma fresh_when_generated:
  assumes "ids_generated s cname" "next_oid s < 16 ^ 24"
  shows "new_oid (next_oid s) \<notin> set (map fst (get_coll s cname))"
proof
  assume "new_oid (next_oid s) \<in> set (map fst (get_coll s cname))"
  with assms(1) obtain k where k: "k < next_oid s" "new_oid (next_oid s) = new_oid k"
    unfolding ids_generated_def by blast
  then have "next_oid s = k" using assms(2) by (intro new_oid_inj) simp_all
  with k(1) show False by simp
qed

lemma apply_handler_ok:
  assumes "faults s = []" "ids_generated s ''applicant''" "next_oid s < 16 ^ 24"
  shows "\<exists>r s'. apply_handler (Some s) a = (Inr r, Some s') \<and> faults s' = []
           \<and> ids_generated s' ''applicant'' \<and> next_oid s' = Suc (next_oid s)"
proof -
  have n: "new_oid (next_oid s) \<notin> set (map fst (get_coll s ''applicant''))"
    by (rule fresh_when_generated [OF assms(2,3)])
  let ?s' = "s\<lparr>next_oid := next_oid s + 1,
              collections := dict_set ''applicant''
                 (get_coll s ''applicant'' @ [(new_oid (next_oid s), ApplicantCreate_dump a)])
                 (collections s)\<rparr>"
  have g: "ids_generated ?s' ''applicant''"
    using assms(2) unfolding ids_generated_def
    by (auto simp: get_coll_def map_of_dict_set less_Suc_eq)
  show ?thesis
    using g assms(1) by (simp add: apply_handler_def create_document_ok [OF assms(1) n])
qed

lemma apply_each_ok:
  "faults s = [] \<Longrightarrow> ids_generated s ''applicant'' \<Longrightarrow> next_oid s + length as \<le> 16 ^ 24 \<Longrightarrow>
     \<exists>s'. apply_each (Some s) as = (Inr (), Some s') \<and> faults s' = []"
proof (induction as arbitrary: s)
  case Nil
  then show ?case by simp
next
  case (Cons a as)
  then have lt: "next_oid s < 16 ^ 24" by simp
  from apply_handler_ok [OF Cons.prems(1,2) lt, of a] obtain r s1 where
    h: "apply_handler (Some s) a = (Inr r, Some s1)" "faults s1 = []"
       "ids_generated s1 ''applicant''" "next_oid s1 = Suc (next_oid s)"
    by blast
  have "next_oid s1 + length as \<le> 16 ^ 24" using Cons.prems(3) h(4) by simp
  from Cons.IH [OF h(2,3) this] show ?case using h(1) by simp
qed

lemma apply_handler_count:
  assumes "apply_handler d a = (Inr r, d')"
  shows "applicant_count d' = Suc (applicant_count d)"
proof -
  have "\<exists>i. create_document d ''applicant'' (ApplicantCreate_dump a) = (Inr i, d')"
    using assms by (auto simp: apply_handler_def split: prod.splits sum.splits)
  then obtain i where "create_document d ''applicant'' (ApplicantCreate_dump a) = (Inr i, d')" ..
  from create_document_Inr [OF this] show ?thesis
    by (auto simp: applicant_count_def)
qed

lemma apply_each_count:
  "apply_each d as = (Inr (), d') \<Longrightarrow> applicant_count d' = applicant_count d + length as"
proof (induction as arbitrary: d)
  case Nil
  then show ?case by simp
next
  case (Cons a as)
  obtain x d1 where h: "apply_handler d a = (x, d1)" by (cases "apply_handler d a")
  with Cons.prems obtain r where r: "x = Inr r" and e: "apply_each d1 as = (Inr (), d')"
    by (cases x) auto
  from apply_handler_count [OF h [unfolded r]] Cons.IH [OF e] show ?case by simp
qed










lemma attempt_keeps: "attempt s = (f, s') \<Longrightarrow> collections s' = collections s \<and> next_oid s' = next_oid s"
  by (auto simp: attempt_def split: list.splits)

lemma get_coll_attempt: "attempt s = (f, s') \<Longrightarrow> get_coll s' cname = get_coll s cname"
  by (simp add: get_coll_def attempt_keeps)

lemma find_one_answer:
  "attempt s = (False, s') \<Longrightarrow>
     find_one s cname i = (Inr (find (\<lambda>d. fst d = i) (get_coll s cname)), s')"
  by (simp add: find_one_def get_coll_attempt)

lemma find_one_raise: "attempt s = (True, s') \<Longrightarrow> find_one s cname i = (Inl PyMongoError, s')"
  by (simp add: find_one_def)

lemma map_of_expose_id:
  "map_of (expose_id item) k = (if k = ''id'' then Some (VStr (fst item)) else map_of (snd item) k)"
  by (simp add: expose_id_def map_of_dict_set)

lemma admin_applicants_Some: "admin_applicants (Some s) = (Inl NotImplementedError, Some s)"
  by (simp add: admin_applicants_def truth_def)

lemma admin_applicants_None: "admin_applicants None = (Inr [], None)"
  by (simp add: admin_applicants_def truth_def)





section \<open>Claims\<close>



text \<open>
  C10. The stdout of \<open>run_code\<close> depends only on the code field: two requests with
  the same code get the same stdout, whatever their interview id, language and input
  and whatever the store, and \<open>run_code\<close> leaves the store as it found it.
\<close>

theorem run_code_depends_only_on_code:
  "code r1 = code r2 \<Longrightarrow>
     fst (run_code d1 r1) = fst (run_code d2 r2) \<and> snd (run_code d1 r1) = d1"
  by (simp add: run_code_def)

theorem run_code_depends_only_on_code_witness:
  "fst (run_code None
          \<lparr>interview_id = ''a'', language = ''javascript'', code = ''x.reverse()'',
           input = None\<rparr>)
     = fst (run_code (Some \<lparr>collections = [], next_oid = 7, faults = [True]\<rparr>)
              \<lparr>interview_id = ''b'', language = ''python'', code = ''x.reverse()'',
               input = Some ''hello''\<rparr>)
   \<and> snd (run_code None
            \<lparr>interview_id = ''a'', language = ''javascript'', code = ''x.reverse()'',
             input = None\<rparr>) = None"
  using run_code_depends_only_on_code
          [of "\<lparr>interview_id = ''a'', language = ''javascript'', code = ''x.reverse()'',
                input = None\<rparr>"
              "\<lparr>interview_id = ''b'', language = ''python'', code = ''x.reverse()'',
                input = Some ''hello''\<rparr>"
              None "Some \<lparr>collections = [], next_oid = 7, faults = [True]\<rparr>"]
  by simp

text \<open>
  C1. The claim: an apply request whose email is not a syntactically valid address fails
  with a ValidationError and persists nothing. The handler's model declares
  \<open>email: str\<close>, so the address \<open>not-an-email\<close> passes validation: the request
  succeeds, returns an id and persists the applicant. Here is the run.
\<close>

theorem apply_accepts_malformed_email:
  "post_apply (Some \<lparr>collections = [], next_oid = 0, faults = []\<rparr>)
     [(''name'', VStr ''Ann''), (''email'', VStr ''not-an-email'')]
   = (Inr \<lparr>applicant_id = ''000000000000000000000000'',
            suggested_roles = [''Frontend Engineer'', ''Backend Engineer'']\<rparr>,
      Some \<lparr>collections =
               [(''applicant'',
                 [(''000000000000000000000000'',
                   [(''name'', VStr ''Ann''), (''email'', VStr ''not-an-email''),
                    (''role_id'', VNull), (''resume_text'', VNull)])])],
             next_oid = 1, faults = []\<rparr>)"
proof -
  have v: "ApplicantCreate_validate [(''name'', VStr ''Ann''), (''email'', VStr ''not-an-email'')]
             = Inr \<lparr>name = ''Ann'', email = ''not-an-email'', role_id = None,
                    resume_text = None\<rparr>"
    by code_simp
  show ?thesis
    by (simp add: post_apply_def v apply_handler_def create_document_first
          ApplicantCreate_dump_def opt_val_def)
qed

text \<open>
  C7. The claim: apply persists an Applicant document with status \<open>applied\<close>. The
  document persisted is the dump of the handler's model, which has the four fields
  name, email, role_id and resume_text and no status. Here is the run, with the fixed
  suggestion list returned and the document stored without a \<open>status\<close> key.
\<close>

theorem apply_persists_no_status:
  "post_apply (Some \<lparr>collections = [], next_oid = 0, faults = []\<rparr>)
     [(''name'', VStr ''Ann''), (''email'', VStr ''ann@example.com''),
      (''role_id'', VStr ''r1''), (''resume_text'', VStr ''Ten years of Python'')]
   = (Inr \<lparr>applicant_id = ''000000000000000000000000'',
            suggested_roles = [''Frontend Engineer'', ''Backend Engineer'']\<rparr>,
      Some \<lparr>collections =
               [(''applicant'',
                 [(''000000000000000000000000'',
                   [(''name'', VStr ''Ann''), (''email'', VStr ''ann@example.com''),
                    (''role_id'', VStr ''r1''),
                    (''resume_text'', VStr ''Ten years of Python'')])])],
             next_oid = 1, faults = []\<rparr>)
   \<and> map_of [(''name'', VStr ''Ann''), (''email'', VStr ''ann@example.com''),
              (''role_id'', VStr ''r1''),
              (''resume_text'', VStr ''Ten years of Python'')] ''status'' = None"
proof -
  have v: "ApplicantCreate_validate
             [(''name'', VStr ''Ann''), (''email'', VStr ''ann@example.com''),
              (''role_id'', VStr ''r1''), (''resume_text'', VStr ''Ten years of Python'')]
             = Inr \<lparr>name = ''Ann'', email = ''ann@example.com'', role_id = Some ''r1'',
                    resume_text = Some ''Ten years of Python''\<rparr>"
    by code_simp
  show ?thesis
    by (simp add: post_apply_def v apply_handler_def create_document_first
          ApplicantCreate_dump_def opt_val_def)
qed

text \<open>
  C8. For every valid Role creation input, creating the Role and then fetching it by
  the returned id (the store answering) yields a document whose fields are those of the
  input, each left-out optional field null and \<open>requirements\<close> the empty list when
  left out, plus the field \<open>id\<close>, which is the returned id and is not empty. A
  valid input on a store that answers and generates a fresh id is created, and an input
  with a title and a description and nothing else is valid.
\<close>

theorem create_then_get_role:
  "(post_roles d body = (Inr rid, Some s') \<longrightarrow> faults s' = [] \<longrightarrow>
      get_role (Some s') rid =
        (Inr (Some [(''title'', input_field body ''title'' VNull),
                    (''department'', input_field body ''department'' VNull),
                    (''location'', input_field body ''location'' VNull),
                    (''level'', input_field body ''level'' VNull),
                    (''description'', input_field body ''description'' VNull),
                    (''requirements'', input_field body ''requirements'' (VList [])),
                    (''id'', VStr rid)]), Some s')
      \<and> rid \<noteq> [])
   \<and> (\<forall>role. RoleCreate_validate body = Inr role \<longrightarrow> faults s = []
         \<longrightarrow> new_oid (next_oid s) \<notin> set (map fst (get_coll s ''role''))
         \<longrightarrow> (\<exists>i s1. post_roles (Some s) body = (Inr i, Some s1) \<and> faults s1 = []))
   \<and> (\<forall>t ds. map_of body ''title'' = Some (VStr t)
         \<longrightarrow> map_of body ''description'' = Some (VStr ds)
         \<longrightarrow> map_of body ''department'' = None \<longrightarrow> map_of body ''location'' = None
         \<longrightarrow> map_of body ''level'' = None \<longrightarrow> map_of body ''requirements'' = None
         \<longrightarrow> RoleCreate_validate body =
               Inr \<lparr>title = t, department = None, location = None, level = None,
                    description = ds, requirements = []\<rparr>)"
proof (intro conjI allI impI)
  assume p: "post_roles d body = (Inr rid, Some s')" and f: "faults s' = []"
  from p obtain role where v: "RoleCreate_validate body = Inr role"
    and c: "create_role d role = (Inr rid, Some s')"
    by (auto simp: post_roles_def split: sum.splits)
  from create_role_then_get [OF c f]
  show "get_role (Some s') rid =
        (Inr (Some [(''title'', input_field body ''title'' VNull),
                    (''department'', input_field body ''department'' VNull),
                    (''location'', input_field body ''location'' VNull),
                    (''level'', input_field body ''level'' VNull),
                    (''description'', input_field body ''description'' VNull),
                    (''requirements'', input_field body ''requirements'' (VList [])),
                    (''id'', VStr rid)]), Some s')"
    by (simp add: RoleCreate_validate_dump [OF v])
  from create_role_then_get [OF c f] show "rid \<noteq> []" by simp
next
  fix role
  assume v: "RoleCreate_validate body = Inr role" and f: "faults s = []"
    and n: "new_oid (next_oid s) \<notin> set (map fst (get_coll s ''role''))"
  show "\<exists>i s1. post_roles (Some s) body = (Inr i, Some s1) \<and> faults s1 = []"
    by (simp add: post_roles_def v create_role_def create_document_ok [OF f n] f)
next
  fix t ds
  assume "map_of body ''title'' = Some (VStr t)" "map_of body ''description'' = Some (VStr ds)"
    "map_of body ''department'' = None" "map_of body ''location'' = None"
    "map_of body ''level'' = None" "map_of body ''requirements'' = None"
  then show "RoleCreate_validate body =
               Inr \<lparr>title = t, department = None, location = None, level = None,
                    description = ds, requirements = []\<rparr>"
    by (rule RoleCreate_validate_minimal)
qed

theorem create_then_get_role_witness:
  "post_roles (Some \<lparr>collections = [], next_oid = 0, faults = []\<rparr>)
     [(''title'', VStr ''Chef''), (''description'', VStr ''Cooks'')]
     = (Inr ''000000000000000000000000'', Some store_created_role)
   \<and> get_role (Some store_created_role) ''000000000000000000000000''
     = (Inr (Some [(''title'', VStr ''Chef''), (''department'', VNull), (''location'', VNull),
                   (''level'', VNull), (''description'', VStr ''Cooks''),
                   (''requirements'', VList []),
                   (''id'', VStr ''000000000000000000000000'')]), Some store_created_role)"
proof -
  let ?body = "[(''title'', VStr ''Chef''), (''description'', VStr ''Cooks'')]"
  have v: "RoleCreate_validate ?body =
             Inr \<lparr>title = ''Chef'', department = None, location = None, level = None,
                  description = ''Cooks'', requirements = []\<rparr>"
    by (rule create_then_get_role [THEN conjunct2, THEN conjunct2, rule_format]) simp_all
  have p: "post_roles (Some \<lparr>collections = [], next_oid = 0, faults = []\<rparr>) ?body
             = (Inr ''000000000000000000000000'', Some store_created_role)"
    by (simp add: post_roles_def v create_role_def create_document_first RoleCreate_dump_def
          opt_val_def store_created_role_def)
  have f: "faults store_created_role = []" by (simp add: store_created_role_def)
  have g: "get_role (Some store_created_role) ''000000000000000000000000'' =
        (Inr (Some [(''title'', input_field ?body ''title'' VNull),
                    (''department'', input_field ?body ''department'' VNull),
                    (''location'', input_field ?body ''location'' VNull),
                    (''level'', input_field ?body ''level'' VNull),
                    (''description'', input_field ?body ''description'' VNull),
                    (''requirements'', input_field ?body ''requirements'' (VList [])),
                    (''id'', VStr ''000000000000000000000000'')]), Some store_created_role)"
    by (rule create_then_get_role [THEN conjunct1, rule_format, OF p f, THEN conjunct1])
  show ?thesis using p g by (simp add: input_field_def)
qed

text \<open>
  C5. For every code string, \<open>run_code\<close> returns as stdout the fixed success message
  if the lower-cased code contains \<open>reverse\<close> as a substring; otherwise the fixed
  compilation-error message if it contains \<open>error\<close>; otherwise the fixed generic
  tests-passed message. It returns for every request and every store, and only compares
  text: the code is never run.
\<close>

theorem run_code_stdout:
  "run_code d req =
     (Inr (if (\<exists>p q. lower (code req) = p @ ''reverse'' @ q) then ''All tests passed.''
           else if (\<exists>p q. lower (code req) = p @ ''error'' @ q)
           then ''Compilation error: Unexpected token''
           else ''Running tests...'' @ [CHR 0x0A] @ ''Test 1: PASSED'' @ [CHR 0x0A]
                @ ''Test 2: PASSED'' @ [CHR 0x0A] @ ''All good!''), d)"
  by (simp only: run_code_def Let_def generic_output_def str_contains_iff)

theorem run_code_stdout_witness:
  "run_code None \<lparr>interview_id = ''i1'', language = ''javascript'',
                   code = ''return s.split(1).REVERSE().join(1)'', input = None\<rparr>
     = (Inr ''All tests passed.'', None)
   \<and> run_code None \<lparr>interview_id = ''i1'', language = ''javascript'',
                     code = ''throw new Error(1)'', input = None\<rparr>
     = (Inr ''Compilation error: Unexpected token'', None)
   \<and> run_code None \<lparr>interview_id = ''i1'', language = ''python'',
                     code = ''print(1)'', input = None\<rparr>
     = (Inr (''Running tests...'' @ [CHR 0x0A] @ ''Test 1: PASSED'' @ [CHR 0x0A]
             @ ''Test 2: PASSED'' @ [CHR 0x0A] @ ''All good!''), None)
   \<and> run_code None \<lparr>interview_id = ''i1'', language = ''javascript'',
                     code = ''// error: call Reverse'', input = None\<rparr>
     = (Inr ''All tests passed.'', None)"
proof -
  let ?r1 = "\<lparr>interview_id = ''i1'', language = ''javascript'',
              code = ''return s.split(1).REVERSE().join(1)'', input = None\<rparr>"
  let ?r2 = "\<lparr>interview_id = ''i1'', language = ''javascript'',
              code = ''throw new Error(1)'', input = None\<rparr>"
  let ?r3 = "\<lparr>interview_id = ''i1'', language = ''python'',
              code = ''print(1)'', input = None\<rparr>"
  let ?r4 = "\<lparr>interview_id = ''i1'', language = ''javascript'',
              code = ''// error: call Reverse'', input = None\<rparr>"
  have "str_contains ''reverse'' (lower (code ?r1))" by code_simp
  then have a1: "\<exists>p q. lower (code ?r1) = p @ ''reverse'' @ q" unfolding str_contains_iff .
  have "\<not> str_contains ''reverse'' (lower (code ?r2))" by code_simp
  then have a2: "\<not> (\<exists>p q. lower (code ?r2) = p @ ''reverse'' @ q)" unfolding str_contains_iff .
  have "str_contains ''error'' (lower (code ?r2))" by code_simp
  then have b2: "\<exists>p q. lower (code ?r2) = p @ ''error'' @ q" unfolding str_contains_iff .
  have "\<not> str_contains ''reverse'' (lower (code ?r3))" by code_simp
  then have a3: "\<not> (\<exists>p q. lower (code ?r3) = p @ ''reverse'' @ q)" unfolding str_contains_iff .
  have "\<not> str_contains ''error'' (lower (code ?r3))" by code_simp
  then have b3: "\<not> (\<exists>p q. lower (code ?r3) = p @ ''error'' @ q)" unfolding str_contains_iff .
  have "str_contains ''reverse'' (lower (code ?r4))" by code_simp
  then have a4: "\<exists>p q. lower (code ?r4) = p @ ''reverse'' @ q" unfolding str_contains_iff .
  have 1: "run_code None ?r1 = (Inr ''All tests passed.'', None)"
    using a1 by (simp only: run_code_stdout [of None ?r1] if_True simp_thms)
  have 2: "run_code None ?r2 = (Inr ''Compilation error: Unexpected token'', None)"
    using a2 b2 by (simp only: run_code_stdout [of None ?r2] if_True if_False simp_thms)
  have 3: "run_code None ?r3 = (Inr (''Running tests...'' @ [CHR 0x0A] @ ''Test 1: PASSED''
             @ [CHR 0x0A] @ ''Test 2: PASSED'' @ [CHR 0x0A] @ ''All good!''), None)"
    using a3 b3 by (simp only: run_code_stdout [of None ?r3] if_False simp_thms)
  have 4: "run_code None ?r4 = (Inr ''All tests passed.'', None)"
    using a4 by (simp only: run_code_stdout [of None ?r4] if_True simp_thms)
  from 1 2 3 4 show ?thesis by (intro conjI)
qed

text \<open>
  C2, as the code has it. \<open>get_role\<close> returns a null role when no store is
  configured. With a store: it raises InvalidId when the id is not a string that bson
  takes for an object id, which is a string of 24 characters that \<open>bytes.fromhex\<close>
  accepts (so every id of another length raises, and 24 hex digits are taken); when the
  id is taken and the store's find raises, that error propagates; when the id is taken
  and the find answers, the role is null if no Role document has the id, and otherwise
  the stored Role with its own id exposed as the plain field \<open>id\<close>, its other fields
  as stored.
\<close>

theorem get_role_cases:
  "get_role None rid = (Inr None, None)
   \<and> (length rid \<noteq> 24 \<longrightarrow> get_role (Some s) rid = (Inl InvalidId, Some s))
   \<and> (ObjectId rid = None \<longrightarrow> get_role (Some s) rid = (Inl InvalidId, Some s))
   \<and> (length rid = 24 \<longrightarrow> list_all is_hex rid \<longrightarrow> ObjectId rid = Some (lower rid))
   \<and> (\<forall>i s'. ObjectId rid = Some i \<longrightarrow> attempt s = (True, s')
          \<longrightarrow> get_role (Some s) rid = (Inl PyMongoError, Some s'))
   \<and> (\<forall>i s'. ObjectId rid = Some i \<longrightarrow> attempt s = (False, s')
          \<longrightarrow> i \<notin> set (map fst (get_coll s ''role''))
          \<longrightarrow> get_role (Some s) rid = (Inr None, Some s'))
   \<and> (\<forall>i s' item. ObjectId rid = Some i \<longrightarrow> attempt s = (False, s')
          \<longrightarrow> find (\<lambda>d. fst d = i) (get_coll s ''role'') = Some item
          \<longrightarrow> get_role (Some s) rid = (Inr (Some (expose_id item)), Some s')
              \<and> map_of (expose_id item) ''id'' = Some (VStr i)
              \<and> (\<forall>k. k \<noteq> ''id'' \<longrightarrow> map_of (expose_id item) k = map_of (snd item) k))"
proof (intro conjI allI impI)
  show "get_role None rid = (Inr None, None)" by (simp add: get_role_def)
next
  assume "length rid \<noteq> 24"
  then show "get_role (Some s) rid = (Inl InvalidId, Some s)"
    by (simp add: get_role_def ObjectId_def)
next
  assume "ObjectId rid = None"
  then show "get_role (Some s) rid = (Inl InvalidId, Some s)" by (simp add: get_role_def)
next
  assume "length rid = 24" "list_all is_hex rid"
  then show "ObjectId rid = Some (lower rid)" by (simp add: ObjectId_def fromhex_hex)
next
  fix i s' assume "ObjectId rid = Some i" "attempt s = (True, s')"
  then show "get_role (Some s) rid = (Inl PyMongoError, Some s')"
    by (simp add: get_role_def find_one_raise)
next
  fix i s'
  assume "ObjectId rid = Some i" "attempt s = (False, s')"
    "i \<notin> set (map fst (get_coll s ''role''))"
  then show "get_role (Some s) rid = (Inr None, Some s')"
    by (simp add: get_role_def find_one_answer find_absent)
next
  fix i s' item
  assume "ObjectId rid = Some i" "attempt s = (False, s')"
    "find (\<lambda>d. fst d = i) (get_coll s ''role'') = Some item"
  then show "get_role (Some s) rid = (Inr (Some (expose_id item)), Some s')"
    by (simp add: get_role_def find_one_answer)
next
  fix i s' item
  assume "find (\<lambda>d. fst d = i) (get_coll s ''role'') = Some item"
  then have "fst item = i" by (auto simp: find_Some_iff)
  then show "map_of (expose_id item) ''id'' = Some (VStr i)" by (simp add: map_of_expose_id)
next
  fix i s' item k
  assume "k \<noteq> ''id''"
  then show "map_of (expose_id item) k = map_of (snd item) k" by (simp add: map_of_expose_id)
qed

theorem get_role_cases_witness:
  "get_role (Some store_one_role) ''not-a-role-id'' = (Inl InvalidId, Some store_one_role)
   \<and> get_role (Some store_one_role) ''zzzzzzzzzzzzzzzzzzzzzzzz''
       = (Inl InvalidId, Some store_one_role)
   \<and> get_role (Some store_one_role) ''0123456789abcdef012345  ''
       = (Inr None, Some store_one_role)
   \<and> get_role (Some store_one_role) ''000000000000000000000001''
       = (Inr None, Some store_one_role)
   \<and> get_role (Some store_one_role) ''000000000000000000000000''
       = (Inr (Some [(''title'', VStr ''Chef''), (''description'', VStr ''Cooks''),
                     (''id'', VStr ''000000000000000000000000'')]), Some store_one_role)
   \<and> get_role (Some (store_one_role\<lparr>faults := [True]\<rparr>)) ''000000000000000000000000''
       = (Inl PyMongoError, Some store_one_role)"
proof -
  have at: "attempt store_one_role = (False, store_one_role)"
    by (simp add: attempt_def store_one_role_def)
  have af: "attempt (store_one_role\<lparr>faults := [True]\<rparr>) = (True, store_one_role)"
    by (simp add: attempt_def store_one_role_def)
  have l1: "length ''not-a-role-id'' \<noteq> 24" by simp
  have o2: "ObjectId ''zzzzzzzzzzzzzzzzzzzzzzzz'' = None" by code_simp
  have o3: "ObjectId ''0123456789abcdef012345  '' = Some ''0123456789abcdef012345''"
    by code_simp
  have n3: "''0123456789abcdef012345'' \<notin> set (map fst (get_coll store_one_role ''role''))"
    by code_simp
  have o4: "ObjectId ''000000000000000000000001'' = Some ''000000000000000000000001''"
    by code_simp
  have n4: "''000000000000000000000001'' \<notin> set (map fst (get_coll store_one_role ''role''))"
    by code_simp
  have o5: "ObjectId ''000000000000000000000000'' = Some ''000000000000000000000000''"
    by code_simp
  have f5: "find (\<lambda>d. fst d = ''000000000000000000000000'') (get_coll store_one_role ''role'')
              = Some (''000000000000000000000000'',
                      [(''title'', VStr ''Chef''), (''description'', VStr ''Cooks'')])"
    by code_simp
  have e5: "expose_id (''000000000000000000000000'',
                      [(''title'', VStr ''Chef''), (''description'', VStr ''Cooks'')])
              = [(''title'', VStr ''Chef''), (''description'', VStr ''Cooks''),
                 (''id'', VStr ''000000000000000000000000'')]"
    by code_simp
  have 1: "get_role (Some store_one_role) ''not-a-role-id'' = (Inl InvalidId, Some store_one_role)"
    by (rule get_role_cases [THEN conjunct2, THEN conjunct1, rule_format, OF l1])
  have 2: "get_role (Some store_one_role) ''zzzzzzzzzzzzzzzzzzzzzzzz''
             = (Inl InvalidId, Some store_one_role)"
    by (rule get_role_cases [THEN conjunct2, THEN conjunct2, THEN conjunct1, rule_format, OF o2])
  have 3: "get_role (Some store_one_role) ''0123456789abcdef012345  ''
             = (Inr None, Some store_one_role)"
    by (rule get_role_cases [THEN conjunct2, THEN conjunct2, THEN conjunct2, THEN conjunct2,
              THEN conjunct2, THEN conjunct1, rule_format, OF o3 at n3])
  have 4: "get_role (Some store_one_role) ''000000000000000000000001''
             = (Inr None, Some store_one_role)"
    by (rule get_role_cases [THEN conjunct2, THEN conjunct2, THEN conjunct2, THEN conjunct2,
              THEN conjunct2, THEN conjunct1, rule_format, OF o4 at n4])
  have 5: "get_role (Some store_one_role) ''000000000000000000000000''
       = (Inr (Some (expose_id (''000000000000000000000000'',
                      [(''title'', VStr ''Chef''), (''description'', VStr ''Cooks'')]))),
          Some store_one_role)"
    by (rule get_role_cases [THEN conjunct2, THEN conjunct2, THEN conjunct2, THEN conjunct2,
              THEN conjunct2, THEN conjunct2, rule_format, OF o5 at f5, THEN conjunct1])
  have 6: "get_role (Some (store_one_role\<lparr>faults := [True]\<rparr>)) ''000000000000000000000000''
       = (Inl PyMongoError, Some store_one_role)"
    by (rule get_role_cases [THEN conjunct2, THEN conjunct2, THEN conjunct2, THEN conjunct2,
              THEN conjunct1, rule_format, OF o5 af])
  from 1 2 3 4 5 [unfolded e5] 6 show ?thesis by (intro conjI)
qed

text \<open>
  C2 as stated (a malformed id gives a null role and no error) fails: with a store,
  the id \<open>not-a-role-id\<close> raises InvalidId.
\<close>

theorem get_role_malformed_id_raises:
  "fst (get_role (Some \<lparr>collections = [], next_oid = 0, faults = []\<rparr>) ''not-a-role-id'')
     = Inl InvalidId"
  by code_simp




text \<open>
  C9. The claim: the admin applicants listing returns at most 50 documents, and exactly
  50 after 60 applicants have been inserted. The handler asks for the truth value of
  the store handle (\<open>if not db\<close>), which a store refuses: with any store the listing
  raises NotImplementedError and returns no document; it returns, the empty list, only
  when no store is configured. Here it is after 60 applicants have been inserted.
\<close>

theorem admin_applicants_raises_with_store:
  "admin_applicants (Some s) = (Inl NotImplementedError, Some s)
   \<and> admin_applicants None = (Inr [], None)
   \<and> (\<exists>s'. apply_each (Some \<lparr>collections = [], next_oid = 0, faults = []\<rparr>)
               (replicate 60 \<lparr>name = ''Ann'', email = ''ann@example.com'', role_id = None,
                               resume_text = None\<rparr>) = (Inr (), Some s')
            \<and> applicant_count (Some s') = 60
            \<and> admin_applicants (Some s') = (Inl NotImplementedError, Some s'))"
proof -
  let ?s = "\<lparr>collections = [], next_oid = 0, faults = []\<rparr>"
  let ?as = "replicate 60 \<lparr>name = ''Ann'', email = ''ann@example.com'', role_id = None,
                           resume_text = None\<rparr>"
  have f: "faults ?s = []" by simp
  have g: "ids_generated ?s ''applicant''" by (simp add: ids_generated_def get_coll_def)
  have b: "next_oid ?s + length ?as \<le> 16 ^ 24" by simp
  from apply_each_ok [OF f g b] obtain s' where
    e: "apply_each (Some ?s) ?as = (Inr (), Some s')" by blast
  have "applicant_count (Some ?s) = 0" by (simp add: applicant_count_def get_coll_def)
  with apply_each_count [OF e] have c: "applicant_count (Some s') = 60" by simp
  from e c admin_applicants_Some [of s']
  have "\<exists>s'. apply_each (Some ?s) ?as = (Inr (), Some s')
            \<and> applicant_count (Some s') = 60
            \<and> admin_applicants (Some s') = (Inl NotImplementedError, Some s')"
    by (intro exI conjI)
  with admin_applicants_Some [of s] admin_applicants_None show ?thesis by (intro conjI)
qed




end
